theory Spec2Isabelle
  imports Complex_Main "HOL-Library.Word"
begin

section \<open>JavaScript values\<close>

text \<open>
  A JavaScript string is a sequence of UTF-16 code units; \<open>length\<close>, \<open>substring\<close> and
  \<open>trim\<close> all count and inspect code units. String literals of the source are ASCII and
  are written through \<open>js\<close>.
\<close>

type_synonym jsstring = "16 word list"

definition js :: "string \<Rightarrow> jsstring" where
  "js s = map of_char s"

text \<open>
  \<open>String.prototype.trim\<close> removes leading and trailing code units that are WhiteSpace or
  LineTerminator in ECMAScript: TAB, LF, VT, FF, CR, SP, NBSP, U+1680, U+2000..U+200A,
  U+2028, U+2029, U+202F, U+205F, U+3000 and U+FEFF.
\<close>

definition isWhiteSpace :: "16 word \<Rightarrow> bool" where
  "isWhiteSpace c =
     (c = 0x0009 \<or> c = 0x000A \<or> c = 0x000B \<or> c = 0x000C \<or> c = 0x000D \<or> c = 0x0020 \<or>
      c = 0x00A0 \<or> c = 0x1680 \<or> (0x2000 \<le> c \<and> c \<le> 0x200A) \<or> c = 0x2028 \<or> c = 0x2029 \<or>
      c = 0x202F \<or> c = 0x205F \<or> c = 0x3000 \<or> c = 0xFEFF)"

definition trim :: "jsstring \<Rightarrow> jsstring" where
  "trim s = rev (dropWhile isWhiteSpace (rev (dropWhile isWhiteSpace s)))"

text \<open>
  JSON values as the remote capability emits them and as \<open>JSON.stringify\<close> prints them.
  An object is an association list read with \<open>map_of\<close>; a number is a finite real.
\<close>

datatype json =
    JNull
  | JBool bool
  | JNum real
  | JStr jsstring
  | JArr "json list"
  | JObj "(jsstring \<times> json) list"

definition field :: "string \<Rightarrow> json \<Rightarrow> json option" where
  "field k v = (case v of JObj kvs \<Rightarrow> map_of kvs (js k) | _ \<Rightarrow> None)"

section \<open>Schemas (src/lib/types.ts)\<close>

text \<open>
  The zod combinators the source uses. \<open>.describe(...)\<close> only attaches documentation to
  a schema and is left out; \<open>.optional()\<close> is \<open>ZOptional\<close>; the argument of
  \<open>conforms\<close> is \<open>None\<close> for \<open>undefined\<close>, the value of a key that is absent.
  Keys that a \<open>z.object\<close> schema does not mention are ignored by the check.
\<close>

datatype zod =
    ZString
  | ZNumber
  | ZLiteral jsstring
  | ZEnum "jsstring list"
  | ZArray zod
  | ZObject "(jsstring \<times> zod) list"
  | ZOptional zod

fun conforms :: "zod \<Rightarrow> json option \<Rightarrow> bool" where
  "conforms ZString v = (case v of Some (JStr s) \<Rightarrow> True | _ \<Rightarrow> False)"
| "conforms ZNumber v = (case v of Some (JNum n) \<Rightarrow> True | _ \<Rightarrow> False)"
| "conforms (ZLiteral l) v = (v = Some (JStr l))"
| "conforms (ZEnum ls) v = (case v of Some (JStr s) \<Rightarrow> s \<in> set ls | _ \<Rightarrow> False)"
| "conforms (ZArray z) v =
     (case v of Some (JArr xs) \<Rightarrow> list_all (\<lambda>x. conforms z (Some x)) xs | _ \<Rightarrow> False)"
| "conforms (ZObject fs) v =
     (case v of
        Some (JObj kvs) \<Rightarrow> list_all (\<lambda>kz. conforms (snd kz) (map_of kvs (fst kz))) fs
      | _ \<Rightarrow> False)"
| "conforms (ZOptional z) v = (v = None \<or> conforms z v)"

text \<open>\<open>base.extend({...})\<close>: the keys of the extension are added to the base shape and
  replace base keys of the same name.\<close>

fun extend :: "zod \<Rightarrow> (jsstring \<times> zod) list \<Rightarrow> zod" where
  "extend (ZObject fs) ext = ZObject (filter (\<lambda>kz. fst kz \<notin> fst ` set ext) fs @ ext)"
| "extend z ext = ZObject ext"

definition LineItemSchema :: zod where
  "LineItemSchema = ZObject
     [(js ''description'', ZString),
      (js ''quantity'', ZOptional ZNumber),
      (js ''unitPrice'', ZOptional ZNumber),
      (js ''totalPrice'', ZNumber),
      (js ''vatRate'', ZOptional ZNumber),
      (js ''vatAmount'', ZOptional ZNumber)]"

definition BaseDocumentSchema :: zod where
  "BaseDocumentSchema = ZObject
     [(js ''documentNumber'', ZString),
      (js ''date'', ZString),
      (js ''seller'', ZObject
         [(js ''name'', ZString),
          (js ''registrationNumber'', ZOptional ZString),
          (js ''vatNumber'', ZOptional ZString),
          (js ''address'', ZOptional ZString)]),
      (js ''buyer'', ZObject
         [(js ''name'', ZString),
          (js ''registrationNumber'', ZOptional ZString),
          (js ''vatNumber'', ZOptional ZString),
          (js ''address'', ZOptional ZString)]),
      (js ''totalAmount'', ZNumber),
      (js ''currency'', ZString)]"

definition InvoiceSchema :: zod where
  "InvoiceSchema = extend BaseDocumentSchema
     [(js ''documentType'', ZLiteral (js ''invoice'')),
      (js ''lineItems'', ZArray LineItemSchema),
      (js ''subtotal'', ZNumber),
      (js ''vatAmount'', ZNumber),
      (js ''dueDate'', ZOptional ZString),
      (js ''paymentDetails'', ZOptional (ZObject
         [(js ''bankAccount'', ZOptional ZString),
          (js ''bankName'', ZOptional ZString),
          (js ''reference'', ZOptional ZString)]))]"

definition DeliveryNoteSchema :: zod where
  "DeliveryNoteSchema = extend BaseDocumentSchema
     [(js ''documentType'', ZLiteral (js ''deliveryNote'')),
      (js ''lineItems'', ZArray LineItemSchema),
      (js ''deliveryDate'', ZOptional ZString),
      (js ''relatedInvoice'', ZOptional ZString)]"

definition ReceiptSchema :: zod where
  "ReceiptSchema = extend BaseDocumentSchema
     [(js ''documentType'', ZLiteral (js ''receipt'')),
      (js ''lineItems'', ZArray LineItemSchema),
      (js ''paymentMethod'', ZOptional ZString),
      (js ''cashierName'', ZOptional ZString)]"

definition DocumentTypeSchema :: zod where
  "DocumentTypeSchema = ZObject
     [(js ''documentType'', ZEnum [js ''invoice'', js ''deliveryNote'', js ''receipt'']),
      (js ''confidence'', ZNumber),
      (js ''reasoning'', ZString)]"

section \<open>Stage functions (src/lib/text-analysis)\<close>

text \<open>
  The prompt templates are fixed texts with the placeholders \<open>{text}\<close> and
  \<open>{documentType}\<close>; the model keeps their identity and the values substituted, not
  their wording. The three extraction prompts are the base template with
  \<open>{documentType}\<close> already replaced by a fixed word.
\<close>

datatype prompt_template =
    documentTypePrompt
  | documentSummaryPrompt
  | baseExtractionPromptTemplate jsstring

definition invoiceExtractionPrompt :: prompt_template where
  "invoiceExtractionPrompt = baseExtractionPromptTemplate (js ''invoice'')"

definition deliveryNoteExtractionPrompt :: prompt_template where
  "deliveryNoteExtractionPrompt = baseExtractionPromptTemplate (js ''delivery note'')"

definition receiptExtractionPrompt :: prompt_template where
  "receiptExtractionPrompt = baseExtractionPromptTemplate (js ''receipt'')"

text \<open>
  One request to the remote text-generation capability: the template, the values given
  for its placeholders, and the schema the answer is bound to (none for free text).
\<close>

record llm_request =
  promptTemplate :: prompt_template
  promptText :: jsstring
  promptDocumentType :: "jsstring option"
  outputSchema :: "zod option"

text \<open>
  The answer of the chat model: its text, and the structured value it emitted when a
  schema was bound (absent when it emitted none or what it emitted is not JSON).
\<close>

record AIMessage =
  content :: jsstring
  structured :: "json option"

text \<open>
  The remote capability is a parameter: it maps a request to an answer, or to the message
  of the exception the call raises (transport error, timeout).
\<close>

type_synonym llm = "llm_request \<Rightarrow> jsstring + AIMessage"

datatype remote_error = CallFailed jsstring | OutputParserException

text \<open>
  The exceptions of the stage functions. \<open>UnsupportedCategoryError\<close> is the source's
  \<open>new Error(`Unsupported document type: ${documentType}`)\<close> and holds that message.
\<close>

datatype error =
    ExternalServiceError remote_error
  | UnsupportedCategoryError jsstring

text \<open>
  \<open>RunnableSequence.from([prompt, model])\<close> and
  \<open>RunnableSequence.from([prompt, model.withStructuredOutput(schema)])\<close>. Invoking a
  chain formats the prompt, calls the remote capability once, and, for a bound schema,
  validates the structured value against it; an answer that does not conform raises.
  This is the behaviour of the LangChain library, which the repository calls and does
  not contain. Each invocation returns its outcome together with the requests it sent.
\<close>

definition RunnableSequence :: "prompt_template \<Rightarrow> llm \<Rightarrow> jsstring \<Rightarrow> jsstring option
    \<Rightarrow> (error + AIMessage) \<times> llm_request list" where
  "RunnableSequence prompt model txt docType =
     (let req = \<lparr>promptTemplate = prompt, promptText = txt, promptDocumentType = docType,
                  outputSchema = None\<rparr>
      in (case model req of
            Inl m \<Rightarrow> Inl (ExternalServiceError (CallFailed m))
          | Inr msg \<Rightarrow> Inr msg,
          [req]))"

definition RunnableSequence_withStructuredOutput ::
    "prompt_template \<Rightarrow> zod \<Rightarrow> llm \<Rightarrow> jsstring \<Rightarrow> jsstring option
      \<Rightarrow> (error + json) \<times> llm_request list" where
  "RunnableSequence_withStructuredOutput prompt schema model txt docType =
     (let req = \<lparr>promptTemplate = prompt, promptText = txt, promptDocumentType = docType,
                  outputSchema = Some schema\<rparr>
      in (case model req of
            Inl m \<Rightarrow> Inl (ExternalServiceError (CallFailed m))
          | Inr msg \<Rightarrow>
              (if conforms schema (structured msg)
               then (case structured msg of
                       Some v \<Rightarrow> Inr v
                     | None \<Rightarrow> Inl (ExternalServiceError OutputParserException))
               else Inl (ExternalServiceError OutputParserException)),
          [req]))"

definition documentTypeDetectionChain :: "llm \<Rightarrow> jsstring \<Rightarrow> jsstring option
    \<Rightarrow> (error + json) \<times> llm_request list" where
  "documentTypeDetectionChain =
     RunnableSequence_withStructuredOutput documentTypePrompt DocumentTypeSchema"

definition documentSummaryChain :: "llm \<Rightarrow> jsstring \<Rightarrow> jsstring option
    \<Rightarrow> (error + AIMessage) \<times> llm_request list" where
  "documentSummaryChain = RunnableSequence documentSummaryPrompt"

definition invoiceExtractionChain :: "llm \<Rightarrow> jsstring \<Rightarrow> jsstring option
    \<Rightarrow> (error + json) \<times> llm_request list" where
  "invoiceExtractionChain =
     RunnableSequence_withStructuredOutput invoiceExtractionPrompt InvoiceSchema"

definition deliveryNoteExtractionChain :: "llm \<Rightarrow> jsstring \<Rightarrow> jsstring option
    \<Rightarrow> (error + json) \<times> llm_request list" where
  "deliveryNoteExtractionChain =
     RunnableSequence_withStructuredOutput deliveryNoteExtractionPrompt DeliveryNoteSchema"

definition receiptExtractionChain :: "llm \<Rightarrow> jsstring \<Rightarrow> jsstring option
    \<Rightarrow> (error + json) \<times> llm_request list" where
  "receiptExtractionChain =
     RunnableSequence_withStructuredOutput receiptExtractionPrompt ReceiptSchema"

record DocumentTypeResult =
  documentType :: jsstring
  confidence :: real
  reasoning :: jsstring

text \<open>
  \<open>detectDocumentType\<close> copies the three fields of the chain's answer. The last branch
  stands for an answer without these fields; the schema check of the chain excludes it.
\<close>

definition detectDocumentType :: "llm \<Rightarrow> jsstring
    \<Rightarrow> (error + DocumentTypeResult) \<times> llm_request list" where
  "detectDocumentType model ocrText =
     (case documentTypeDetectionChain model ocrText None of
        (Inl e, calls) \<Rightarrow> (Inl e, calls)
      | (Inr typeDetectionResult, calls) \<Rightarrow>
          (case (field ''documentType'' typeDetectionResult,
                 field ''confidence'' typeDetectionResult,
                 field ''reasoning'' typeDetectionResult) of
             (Some (JStr d), Some (JNum c), Some (JStr r)) \<Rightarrow>
               (Inr \<lparr>DocumentTypeResult.documentType = d, confidence = c, reasoning = r\<rparr>, calls)
           | _ \<Rightarrow> (Inl (ExternalServiceError OutputParserException), calls)))"

definition summarizeDocument :: "llm \<Rightarrow> jsstring \<Rightarrow> jsstring
    \<Rightarrow> (error + jsstring) \<times> llm_request list" where
  "summarizeDocument model ocrText docType =
     (case documentSummaryChain model ocrText (Some docType) of
        (Inl e, calls) \<Rightarrow> (Inl e, calls)
      | (Inr summaryResult, calls) \<Rightarrow> (Inr (content summaryResult), calls))"

text \<open>The \<open>switch\<close> compares the category with \<open>===\<close>, in the order of the source; the
  \<open>default\<close> arm throws before any chain is invoked.\<close>

definition extractDocumentData :: "llm \<Rightarrow> jsstring \<Rightarrow> jsstring
    \<Rightarrow> (error + json) \<times> llm_request list" where
  "extractDocumentData model ocrText docType =
     (if docType = js ''invoice'' then invoiceExtractionChain model ocrText None
      else if docType = js ''deliveryNote'' then deliveryNoteExtractionChain model ocrText None
      else if docType = js ''receipt'' then receiptExtractionChain model ocrText None
      else (Inl (UnsupportedCategoryError (js ''Unsupported document type: '' @ docType)), []))"

section \<open>Coordinator (src/components/ocr-analyzer)\<close>

record AnalysisResults =
  documentType :: "DocumentTypeResult option"
  summary :: "jsstring option"
  extractedData :: "json option"

record HistoryEntry =
  "text" :: jsstring
  timestamp :: nat

text \<open>
  An \<open>async\<close> handler runs up to its \<open>await\<close>, and its rest runs when the awaited call
  settles. The rest reads \<open>inputText\<close>, \<open>results\<close> and \<open>history\<close> as they were when the
  handler was started (the constants of that render), so a suspended handler carries them.
\<close>

datatype continuation =
    DetectAwait jsstring "AnalysisResults option" "HistoryEntry list"
  | SummarizeAwait jsstring jsstring AnalysisResults
  | ExtractAwait jsstring jsstring AnalysisResults
  | AllDetectAwait jsstring "HistoryEntry list"
  | AllSummarizeAwait jsstring "HistoryEntry list" DocumentTypeResult
  | AllExtractAwait jsstring "HistoryEntry list" DocumentTypeResult

text \<open>
  The eight \<open>useState\<close> cells of the component, followed by its surroundings: the value
  kept in the browser's local storage under \<open>STORAGE_KEY\<close> (\<open>None\<close> when the key is
  absent; \<open>JSON.stringify\<close> and \<open>JSON.parse\<close> are inverse on lists of entries, so the
  list itself is kept), the requests sent to the remote capability so far, and the
  handler that is suspended at an \<open>await\<close>, if any.
\<close>

record OCRAnalyzer =
  inputText :: jsstring
  isDetectingType :: bool
  isSummarizing :: bool
  isExtractingData :: bool
  results :: "AnalysisResults option"
  error :: "jsstring option"
  history :: "HistoryEntry list"
  activeTab :: jsstring
  localStorage :: "HistoryEntry list option"
  remoteCalls :: "llm_request list"
  awaiting :: "continuation option"

text \<open>The second \<open>useEffect\<close>: it runs after \<open>history\<close> was set and writes only a
  non-empty list.\<close>

definition saveHistoryEffect :: "OCRAnalyzer \<Rightarrow> OCRAnalyzer" where
  "saveHistoryEffect st =
     (if length (history st) > 0 then st\<lparr>localStorage := Some (history st)\<rparr> else st)"

definition setHistory :: "HistoryEntry list \<Rightarrow> OCRAnalyzer \<Rightarrow> OCRAnalyzer" where
  "setHistory h st = saveHistoryEffect (st\<lparr>history := h\<rparr>)"

text \<open>
  Mounting the component: the initial values of the cells, then the first
  \<open>useEffect\<close>, which loads a stored list, and the second one after it.
\<close>

definition mount :: "HistoryEntry list option \<Rightarrow> llm_request list \<Rightarrow> OCRAnalyzer" where
  "mount stored sent =
     (let initial = \<lparr>inputText = [], isDetectingType = False, isSummarizing = False,
                      isExtractingData = False, results = None, error = None, history = [],
                      activeTab = js ''input'', localStorage = stored, remoteCalls = sent,
                      awaiting = None\<rparr>
      in case stored of
           None \<Rightarrow> saveHistoryEffect initial
         | Some savedHistory \<Rightarrow> setHistory savedHistory (saveHistoryEffect initial))"

text \<open>\<open>{...results}\<close>: spreading \<open>null\<close> gives an object without fields.\<close>

definition spread :: "AnalysisResults option \<Rightarrow> AnalysisResults" where
  "spread r =
     (case r of
        None \<Rightarrow> \<lparr>documentType = None, summary = None, extractedData = None\<rparr>
      | Some x \<Rightarrow> x)"

text \<open>\<open>!results || !results.documentType\<close>\<close>

definition noClassification :: "AnalysisResults option \<Rightarrow> bool" where
  "noClassification r =
     (case r of None \<Rightarrow> True | Some x \<Rightarrow> AnalysisResults.documentType x = None)"

text \<open>The entry both handlers build, and the list they store:
  \<open>[{ text: ..., timestamp: Date.now() }, ...history].slice(0, 5)\<close>.\<close>

definition historyEntry :: "jsstring \<Rightarrow> nat \<Rightarrow> HistoryEntry" where
  "historyEntry inputText' now =
     \<lparr>text = take 100 inputText' @ (if length inputText' > 100 then js ''...'' else []),
      timestamp = now\<rparr>"

definition newHistory :: "jsstring \<Rightarrow> nat \<Rightarrow> HistoryEntry list \<Rightarrow> HistoryEntry list" where
  "newHistory inputText' now history' = take 5 (historyEntry inputText' now # history')"

subsection \<open>Handlers up to their first await\<close>

definition handleDetectDocumentType :: "OCRAnalyzer \<Rightarrow> OCRAnalyzer" where
  "handleDetectDocumentType st =
     (if trim (inputText st) = []
      then st\<lparr>error := Some (js ''Please enter some text to analyze'')\<rparr>
      else st\<lparr>error := None, isDetectingType := True,
              awaiting := Some (DetectAwait (inputText st) (results st) (history st))\<rparr>)"

definition handleSummarizeDocument :: "OCRAnalyzer \<Rightarrow> OCRAnalyzer" where
  "handleSummarizeDocument st =
     (case results st of
        None \<Rightarrow> st\<lparr>error := Some (js ''Please detect document type first'')\<rparr>
      | Some r \<Rightarrow>
          (case AnalysisResults.documentType r of
             None \<Rightarrow> st\<lparr>error := Some (js ''Please detect document type first'')\<rparr>
           | Some dt \<Rightarrow>
               st\<lparr>error := None, isSummarizing := True,
                  awaiting := Some (SummarizeAwait (inputText st)
                                      (DocumentTypeResult.documentType dt) r)\<rparr>))"

definition handleExtractDocumentData :: "OCRAnalyzer \<Rightarrow> OCRAnalyzer" where
  "handleExtractDocumentData st =
     (case results st of
        None \<Rightarrow> st\<lparr>error := Some (js ''Please detect document type first'')\<rparr>
      | Some r \<Rightarrow>
          (case AnalysisResults.documentType r of
             None \<Rightarrow> st\<lparr>error := Some (js ''Please detect document type first'')\<rparr>
           | Some dt \<Rightarrow>
               st\<lparr>error := None, isExtractingData := True,
                  awaiting := Some (ExtractAwait (inputText st)
                                      (DocumentTypeResult.documentType dt) r)\<rparr>))"

definition handleProcessAll :: "OCRAnalyzer \<Rightarrow> OCRAnalyzer" where
  "handleProcessAll st =
     (if trim (inputText st) = []
      then st\<lparr>error := Some (js ''Please enter some text to analyze'')\<rparr>
      else st\<lparr>error := None, isDetectingType := True,
              awaiting := Some (AllDetectAwait (inputText st) (history st))\<rparr>)"

definition handleClear :: "OCRAnalyzer \<Rightarrow> OCRAnalyzer" where
  "handleClear st = st\<lparr>inputText := [], results := None, error := None,
                       activeTab := js ''input''\<rparr>"

definition loadFromHistory :: "jsstring \<Rightarrow> OCRAnalyzer \<Rightarrow> OCRAnalyzer" where
  "loadFromHistory text' st = st\<lparr>inputText := text', results := None, error := None\<rparr>"

subsection \<open>Handlers after an await\<close>

text \<open>
  \<open>resume k model now st\<close> is the rest of the suspended handler \<open>k\<close>, run in the state
  \<open>st\<close> when the awaited stage function settles: \<open>model\<close> is the behaviour of the remote
  capability during that call and \<open>now\<close> is what \<open>Date.now()\<close> returns. The \<open>try\<close> block
  up to the next \<open>await\<close> or its end, the \<open>catch\<close> block and the \<open>finally\<close> block are
  one step, and the effect that saves the history runs within it. The requests of a
  stage function are added to \<open>remoteCalls\<close> when its call settles.
\<close>

definition processAllFailed :: "llm_request list \<Rightarrow> OCRAnalyzer \<Rightarrow> OCRAnalyzer" where
  "processAllFailed calls st =
     st\<lparr>error := Some (js ''An error occurred during document processing. Please try again.''),
        isDetectingType := False, isSummarizing := False, isExtractingData := False,
        remoteCalls := remoteCalls st @ calls\<rparr>"

fun resume :: "continuation \<Rightarrow> llm \<Rightarrow> nat \<Rightarrow> OCRAnalyzer \<Rightarrow> OCRAnalyzer" where
  "resume (DetectAwait inputText' results' history') model now st =
     (case detectDocumentType model inputText' of
        (Inr documentType', calls) \<Rightarrow>
          setHistory (newHistory inputText' now history')
            (st\<lparr>results := Some ((spread results')
                                   \<lparr>AnalysisResults.documentType := Some documentType'\<rparr>),
                activeTab := js ''results'', isDetectingType := False,
                remoteCalls := remoteCalls st @ calls\<rparr>)
      | (Inl err, calls) \<Rightarrow>
          st\<lparr>error := Some (js ''An error occurred during document type detection. Please try again.''),
             isDetectingType := False, remoteCalls := remoteCalls st @ calls\<rparr>)"
| "resume (SummarizeAwait inputText' docType results') model now st =
     (case summarizeDocument model inputText' docType of
        (Inr summary', calls) \<Rightarrow>
          st\<lparr>results := Some (results'\<lparr>summary := Some summary'\<rparr>), isSummarizing := False,
             remoteCalls := remoteCalls st @ calls\<rparr>
      | (Inl err, calls) \<Rightarrow>
          st\<lparr>error := Some (js ''An error occurred during document summarization. Please try again.''),
             isSummarizing := False, remoteCalls := remoteCalls st @ calls\<rparr>)"
| "resume (ExtractAwait inputText' docType results') model now st =
     (case extractDocumentData model inputText' docType of
        (Inr extractedData', calls) \<Rightarrow>
          st\<lparr>results := Some (results'\<lparr>extractedData := Some extractedData'\<rparr>),
             isExtractingData := False, remoteCalls := remoteCalls st @ calls\<rparr>
      | (Inl err, calls) \<Rightarrow>
          st\<lparr>error := Some (js ''An error occurred during data extraction. Please try again.''),
             isExtractingData := False, remoteCalls := remoteCalls st @ calls\<rparr>)"
| "resume (AllDetectAwait inputText' history') model now st =
     (case detectDocumentType model inputText' of
        (Inr documentType', calls) \<Rightarrow>
          st\<lparr>results := Some \<lparr>documentType = Some documentType', summary = None,
                               extractedData = None\<rparr>,
             isDetectingType := False, isSummarizing := True,
             remoteCalls := remoteCalls st @ calls,
             awaiting := Some (AllSummarizeAwait inputText' history' documentType')\<rparr>
      | (Inl err, calls) \<Rightarrow> processAllFailed calls st)"
| "resume (AllSummarizeAwait inputText' history' documentType') model now st =
     (case summarizeDocument model inputText' (DocumentTypeResult.documentType documentType') of
        (Inr summary', calls) \<Rightarrow>
          st\<lparr>results := Some ((spread (results st))\<lparr>summary := Some summary'\<rparr>),
             isSummarizing := False, isExtractingData := True,
             remoteCalls := remoteCalls st @ calls,
             awaiting := Some (AllExtractAwait inputText' history' documentType')\<rparr>
      | (Inl err, calls) \<Rightarrow> processAllFailed calls st)"
| "resume (AllExtractAwait inputText' history' documentType') model now st =
     (case extractDocumentData model inputText' (DocumentTypeResult.documentType documentType') of
        (Inr extractedData', calls) \<Rightarrow>
          setHistory (newHistory inputText' now history')
            (st\<lparr>results := Some ((spread (results st))\<lparr>extractedData := Some extractedData'\<rparr>),
                activeTab := js ''results'', isDetectingType := False, isSummarizing := False,
                isExtractingData := False, remoteCalls := remoteCalls st @ calls\<rparr>)
      | (Inl err, calls) \<Rightarrow> processAllFailed calls st)"

definition settle :: "llm \<Rightarrow> nat \<Rightarrow> OCRAnalyzer \<Rightarrow> OCRAnalyzer" where
  "settle model now st =
     (case awaiting st of
        None \<Rightarrow> st
      | Some k \<Rightarrow> resume k model now (st\<lparr>awaiting := None\<rparr>))"

subsection \<open>The controls of the page\<close>

text \<open>
  What can happen to a mounted component: the page is reloaded, the text area changes,
  a button is clicked (a click on a button whose \<open>disabled\<close> expression holds, or that is
  not rendered, does nothing), a tab is selected, or the awaited call settles. A reload
  mounts a new component over the stored list and drops a suspended handler. The
  buttons and the text area are on the input tab; \<open>step\<close> does not ask for that tab to
  be the active one, so the sequences of events it admits include all those of the page.
\<close>

datatype event =
    Reload
  | ChangeText jsstring
  | ClickDetect
  | ClickSummarize
  | ClickExtract
  | ClickProcessAll
  | ClickClear
  | ClickClearHistory
  | ClickRecent nat
  | SelectInputTab
  | SelectResultsTab
  | Settle llm nat

definition stageInFlight :: "OCRAnalyzer \<Rightarrow> bool" where
  "stageInFlight st = (isDetectingType st \<or> isSummarizing st \<or> isExtractingData st)"

fun step :: "event \<Rightarrow> OCRAnalyzer \<Rightarrow> OCRAnalyzer" where
  "step Reload st = mount (localStorage st) (remoteCalls st)"
| "step (ChangeText s) st = st\<lparr>inputText := s\<rparr>"
| "step ClickDetect st =
     (if stageInFlight st \<or> trim (inputText st) = [] then st else handleDetectDocumentType st)"
| "step ClickSummarize st =
     (if stageInFlight st \<or> noClassification (results st) then st
      else handleSummarizeDocument st)"
| "step ClickExtract st =
     (if stageInFlight st \<or> noClassification (results st) then st
      else handleExtractDocumentData st)"
| "step ClickProcessAll st =
     (if stageInFlight st \<or> trim (inputText st) = [] then st else handleProcessAll st)"
| "step ClickClear st =
     (if stageInFlight st \<or> (inputText st = [] \<and> results st = None) then st
      else handleClear st)"
| "step ClickClearHistory st = (if length (history st) > 0 then setHistory [] st else st)"
| "step (ClickRecent i) st =
     (if i < length (history st) then loadFromHistory (text (history st ! i)) st else st)"
| "step SelectInputTab st = st\<lparr>activeTab := js ''input''\<rparr>"
| "step SelectResultsTab st = (if results st = None then st else st\<lparr>activeTab := js ''results''\<rparr>)"
| "step (Settle model now) st = settle model now st"

fun run :: "event list \<Rightarrow> OCRAnalyzer \<Rightarrow> OCRAnalyzer" where
  "run [] st = st"
| "run (e # es) st = run es (step e st)"

text \<open>The readings of \<open>Date.now()\<close> along a sequence of events.\<close>

fun clockReadings :: "event list \<Rightarrow> nat list" where
  "clockReadings [] = []"
| "clockReadings (Settle model now # es) = now # clockReadings es"
| "clockReadings (e # es) = clockReadings es"

text \<open>A browser profile that has never run the page: nothing stored, nothing sent.\<close>

definition firstVisit :: OCRAnalyzer where
  "firstVisit = mount None []"

subsection \<open>The states of the specification\<close>

text \<open>
  The specification names the coordinator's states Idle, Detecting, Summarizing,
  Extracting, Complete and Failed. \<open>specState\<close> reads them off the cells: a stage is in
  flight while its flag is set; otherwise the session has failed when an error message
  is shown, is complete when it holds results, and is idle when it holds neither.
\<close>

datatype spec_state = Idle | Detecting | Summarizing | Extracting | Complete | Failed

definition specState :: "OCRAnalyzer \<Rightarrow> spec_state" where
  "specState st =
     (if isDetectingType st then Detecting
      else if isSummarizing st then Summarizing
      else if isExtractingData st then Extracting
      else if error st \<noteq> None then Failed
      else if results st \<noteq> None then Complete
      else Idle)"

section \<open>Concrete inputs\<close>

text \<open>Remote capabilities and documents used to run the definitions on concrete inputs.\<close>

definition answering :: "json \<Rightarrow> llm" where
  "answering v = (\<lambda>req. Inr \<lparr>content = [], structured = Some v\<rparr>)"

definition unreachable :: llm where
  "unreachable = (\<lambda>req. Inl (js ''fetch failed''))"

definition classificationAnswer :: "jsstring \<Rightarrow> real \<Rightarrow> jsstring \<Rightarrow> json" where
  "classificationAnswer d c r =
     JObj [(js ''documentType'', JStr d), (js ''confidence'', JNum c),
           (js ''reasoning'', JStr r)]"

definition sampleParty :: json where
  "sampleParty = JObj [(js ''name'', JStr (js ''SIA Alfa''))]"

definition sampleBase :: "(jsstring \<times> json) list" where
  "sampleBase =
     [(js ''documentNumber'', JStr (js ''123'')),
      (js ''date'', JStr (js ''2024-01-31'')),
      (js ''seller'', sampleParty),
      (js ''buyer'', sampleParty),
      (js ''totalAmount'', JNum 121),
      (js ''currency'', JStr (js ''EUR'')),
      (js ''lineItems'',
         JArr [JObj [(js ''description'', JStr (js ''Prece'')), (js ''totalPrice'', JNum 100)]])]"

definition sampleInvoice :: json where
  "sampleInvoice = JObj ((js ''documentType'', JStr (js ''invoice'')) #
      (js ''subtotal'', JNum 100) # (js ''vatAmount'', JNum 21) # sampleBase)"

definition sampleDeliveryNote :: json where
  "sampleDeliveryNote = JObj ((js ''documentType'', JStr (js ''deliveryNote'')) # sampleBase)"

definition sampleReceipt :: json where
  "sampleReceipt = JObj ((js ''documentType'', JStr (js ''receipt'')) # sampleBase)"

text \<open>A remote capability that answers every stage as asked, classifying each text as
  an invoice.\<close>

definition sampleModel :: llm where
  "sampleModel req =
     (if promptTemplate req = documentTypePrompt
      then Inr \<lparr>content = [], structured =
                  Some (classificationAnswer (js ''invoice'') (9 / 10) (js ''Rekins''))\<rparr>
      else if promptTemplate req = documentSummaryPrompt
      then Inr \<lparr>content = js ''Invoice 123 from SIA Alfa, 121.00 EUR.'', structured = None\<rparr>
      else if promptTemplate req = invoiceExtractionPrompt
      then Inr \<lparr>content = [], structured = Some sampleInvoice\<rparr>
      else if promptTemplate req = deliveryNoteExtractionPrompt
      then Inr \<lparr>content = [], structured = Some sampleDeliveryNote\<rparr>
      else Inr \<lparr>content = [], structured = Some sampleReceipt\<rparr>)"

text \<open>What \<open>sampleModel\<close> makes the detection return.\<close>

definition sampleClassification :: DocumentTypeResult where
  "sampleClassification =
     \<lparr>DocumentTypeResult.documentType = js ''invoice'', confidence = 9 / 10,
      reasoning = js ''Rekins''\<rparr>"

text \<open>A remote capability that classifies with a confidence of 1.5, and what the detection
  returns with it.\<close>

definition overconfidentAnswer :: DocumentTypeResult where
  "overconfidentAnswer =
     \<lparr>DocumentTypeResult.documentType = js ''invoice'', confidence = 3 / 2,
      reasoning = js ''Rekins''\<rparr>"

definition overconfident :: llm where
  "overconfident = answering (classificationAnswer (js ''invoice'') (3 / 2) (js ''Rekins''))"

text \<open>The session after one successful single-stage detection, and the entry it adds.\<close>

definition sampleEntry :: "nat \<Rightarrow> HistoryEntry" where
  "sampleEntry now = \<lparr>text = js ''Rekins Nr. 123'', timestamp = now\<rparr>"


definition classified :: OCRAnalyzer where
  "classified =
     run [ChangeText (js ''Rekins Nr. 123''), ClickDetect, Settle sampleModel 1000] firstVisit"

text \<open>The session in the middle of a process-all run: detection has succeeded and the
  summarization is in flight.\<close>

definition summarizing :: OCRAnalyzer where
  "summarizing =
     run [ChangeText (js ''Rekins Nr. 123''), ClickProcessAll, Settle sampleModel 1000]
       firstVisit"

text \<open>An input of white space only: a space, a tab, a line feed and a no-break space.\<close>

definition blankText :: jsstring where
  "blankText = [0x20, 0x09, 0x0A, 0xA0]"

text \<open>An input of 120 code units.\<close>

definition longText :: jsstring where
  "longText = replicate 120 0x52"

definition sixDetections :: "event list" where
  "sixDetections =
     [ChangeText (js ''Rekins Nr. 123''),
      ClickDetect, Settle sampleModel 1, ClickDetect, Settle sampleModel 2,
      ClickDetect, Settle sampleModel 3, ClickDetect, Settle sampleModel 4,
      ClickDetect, Settle sampleModel 5, ClickDetect, Settle sampleModel 6]"

section \<open>Invariants of the history list\<close>

text \<open>
  The list a suspended handler has captured and will extend when it resumes.
\<close>

fun capturedHistory :: "continuation \<Rightarrow> HistoryEntry list" where
  "capturedHistory (DetectAwait t r h) = h"
| "capturedHistory (SummarizeAwait t c r) = []"
| "capturedHistory (ExtractAwait t c r) = []"
| "capturedHistory (AllDetectAwait t h) = h"
| "capturedHistory (AllSummarizeAwait t h d) = h"
| "capturedHistory (AllExtractAwait t h d) = h"

text \<open>
  An invariant of the history list has to hold of three lists: the one shown, the one
  stored, and the one captured by a suspended handler. A list is most recent first up to
  the clock reading \<open>T\<close> when its timestamps do not increase from the head on and none
  is later than \<open>T\<close>.
\<close>

definition historiesSatisfy :: "(HistoryEntry list \<Rightarrow> bool) \<Rightarrow> OCRAnalyzer \<Rightarrow> bool" where
  "historiesSatisfy P st =
     (P (history st) \<and>
      (case localStorage st of None \<Rightarrow> True | Some h \<Rightarrow> P h) \<and>
      (case awaiting st of None \<Rightarrow> True | Some k \<Rightarrow> P (capturedHistory k)))"

definition recentFirst :: "nat \<Rightarrow> HistoryEntry list \<Rightarrow> bool" where
  "recentFirst T h =
     (sorted_wrt (\<ge>) (map timestamp h) \<and> (\<forall>e\<in>set h. timestamp e \<le> T))"

section \<open>Properties of the stage functions\<close>

lemma tags_distinct:
  "js ''invoice'' \<noteq> js ''deliveryNote''" "js ''invoice'' \<noteq> js ''receipt''"
  "js ''deliveryNote'' \<noteq> js ''receipt''" "js ''deliveryNote'' \<noteq> js ''invoice''"
  "js ''receipt'' \<noteq> js ''invoice''" "js ''receipt'' \<noteq> js ''deliveryNote''"
  by (simp_all add: js_def)

lemma InvoiceSchema_tag:
  "conforms InvoiceSchema (Some v) \<Longrightarrow>
   field ''documentType'' v = Some (JStr (js ''invoice''))"
  by (cases v) (simp_all add: InvoiceSchema_def BaseDocumentSchema_def field_def js_def)

lemma DeliveryNoteSchema_tag:
  "conforms DeliveryNoteSchema (Some v) \<Longrightarrow>
   field ''documentType'' v = Some (JStr (js ''deliveryNote''))"
  by (cases v) (simp_all add: DeliveryNoteSchema_def BaseDocumentSchema_def field_def js_def)

lemma ReceiptSchema_tag:
  "conforms ReceiptSchema (Some v) \<Longrightarrow>
   field ''documentType'' v = Some (JStr (js ''receipt''))"
  by (cases v) (simp_all add: ReceiptSchema_def BaseDocumentSchema_def field_def js_def)

lemma structured_chain_conforms:
  "fst (RunnableSequence_withStructuredOutput p s model t d) = Inr v \<Longrightarrow> conforms s (Some v)"
  by (auto simp: RunnableSequence_withStructuredOutput_def Let_def
           split: sum.splits if_splits option.splits)

lemma structured_chain_calls:
  "snd (RunnableSequence_withStructuredOutput p s model t d) =
     [\<lparr>promptTemplate = p, promptText = t, promptDocumentType = d, outputSchema = Some s\<rparr>]"
  by (simp add: RunnableSequence_withStructuredOutput_def Let_def)

lemma sample_conforms:
  "conforms InvoiceSchema (Some sampleInvoice)"
  "conforms DeliveryNoteSchema (Some sampleDeliveryNote)"
  "conforms ReceiptSchema (Some sampleReceipt)"
  by (simp_all add: InvoiceSchema_def DeliveryNoteSchema_def ReceiptSchema_def
        BaseDocumentSchema_def LineItemSchema_def sampleInvoice_def sampleDeliveryNote_def
        sampleReceipt_def sampleBase_def sampleParty_def js_def)

lemma templates_distinct:
  "invoiceExtractionPrompt \<noteq> documentTypePrompt"
  "invoiceExtractionPrompt \<noteq> documentSummaryPrompt"
  "deliveryNoteExtractionPrompt \<noteq> documentTypePrompt"
  "deliveryNoteExtractionPrompt \<noteq> documentSummaryPrompt"
  "deliveryNoteExtractionPrompt \<noteq> invoiceExtractionPrompt"
  "receiptExtractionPrompt \<noteq> documentTypePrompt"
  "receiptExtractionPrompt \<noteq> documentSummaryPrompt"
  "receiptExtractionPrompt \<noteq> invoiceExtractionPrompt"
  "receiptExtractionPrompt \<noteq> deliveryNoteExtractionPrompt"
  by (simp_all add: invoiceExtractionPrompt_def deliveryNoteExtractionPrompt_def
        receiptExtractionPrompt_def js_def)

lemma extract_sampleModel:
  "extractDocumentData sampleModel t (js ''invoice'') =
     (Inr sampleInvoice, [\<lparr>promptTemplate = invoiceExtractionPrompt, promptText = t,
        promptDocumentType = None, outputSchema = Some InvoiceSchema\<rparr>])"
  "extractDocumentData sampleModel t (js ''deliveryNote'') =
     (Inr sampleDeliveryNote, [\<lparr>promptTemplate = deliveryNoteExtractionPrompt, promptText = t,
        promptDocumentType = None, outputSchema = Some DeliveryNoteSchema\<rparr>])"
  "extractDocumentData sampleModel t (js ''receipt'') =
     (Inr sampleReceipt, [\<lparr>promptTemplate = receiptExtractionPrompt, promptText = t,
        promptDocumentType = None, outputSchema = Some ReceiptSchema\<rparr>])"
  by (simp_all add: extractDocumentData_def tags_distinct invoiceExtractionChain_def
        deliveryNoteExtractionChain_def receiptExtractionChain_def
        RunnableSequence_withStructuredOutput_def sampleModel_def templates_distinct
        sample_conforms)

text \<open>
  C1. For each of the three category values, \<open>extractDocumentData\<close> sends exactly one
  request, built from that category's prompt and bound to that category's schema
  (invoice: \<open>InvoiceSchema\<close>, deliveryNote: \<open>DeliveryNoteSchema\<close>, receipt:
  \<open>ReceiptSchema\<close>); a record it returns conforms to that schema and to neither of the
  other two, so it never has another variant's shape.
\<close>

theorem extract_dispatch:
  "snd (extractDocumentData model ocrText (js ''invoice'')) =
     [\<lparr>promptTemplate = invoiceExtractionPrompt, promptText = ocrText,
       promptDocumentType = None, outputSchema = Some InvoiceSchema\<rparr>] \<and>
   snd (extractDocumentData model ocrText (js ''deliveryNote'')) =
     [\<lparr>promptTemplate = deliveryNoteExtractionPrompt, promptText = ocrText,
       promptDocumentType = None, outputSchema = Some DeliveryNoteSchema\<rparr>] \<and>
   snd (extractDocumentData model ocrText (js ''receipt'')) =
     [\<lparr>promptTemplate = receiptExtractionPrompt, promptText = ocrText,
       promptDocumentType = None, outputSchema = Some ReceiptSchema\<rparr>] \<and>
   (fst (extractDocumentData model ocrText (js ''invoice'')) = Inr v1 \<longrightarrow>
      conforms InvoiceSchema (Some v1) \<and> \<not> conforms DeliveryNoteSchema (Some v1) \<and>
      \<not> conforms ReceiptSchema (Some v1)) \<and>
   (fst (extractDocumentData model ocrText (js ''deliveryNote'')) = Inr v2 \<longrightarrow>
      conforms DeliveryNoteSchema (Some v2) \<and> \<not> conforms InvoiceSchema (Some v2) \<and>
      \<not> conforms ReceiptSchema (Some v2)) \<and>
   (fst (extractDocumentData model ocrText (js ''receipt'')) = Inr v3 \<longrightarrow>
      conforms ReceiptSchema (Some v3) \<and> \<not> conforms InvoiceSchema (Some v3) \<and>
      \<not> conforms DeliveryNoteSchema (Some v3))"
proof -
  have inv: "extractDocumentData model ocrText (js ''invoice'') =
      invoiceExtractionChain model ocrText None"
    by (simp add: extractDocumentData_def)
  have dn: "extractDocumentData model ocrText (js ''deliveryNote'') =
      deliveryNoteExtractionChain model ocrText None"
    by (simp add: extractDocumentData_def tags_distinct)
  have rc: "extractDocumentData model ocrText (js ''receipt'') =
      receiptExtractionChain model ocrText None"
    by (simp add: extractDocumentData_def tags_distinct)
  have excl:
    "conforms InvoiceSchema (Some v) \<Longrightarrow>
       \<not> conforms DeliveryNoteSchema (Some v) \<and> \<not> conforms ReceiptSchema (Some v)"
    "conforms DeliveryNoteSchema (Some v) \<Longrightarrow>
       \<not> conforms InvoiceSchema (Some v) \<and> \<not> conforms ReceiptSchema (Some v)"
    "conforms ReceiptSchema (Some v) \<Longrightarrow>
       \<not> conforms InvoiceSchema (Some v) \<and> \<not> conforms DeliveryNoteSchema (Some v)"
    for v
    using InvoiceSchema_tag [of v] DeliveryNoteSchema_tag [of v] ReceiptSchema_tag [of v]
      tags_distinct
    by auto
  show ?thesis
    unfolding inv dn rc invoiceExtractionChain_def deliveryNoteExtractionChain_def
      receiptExtractionChain_def
    using structured_chain_conforms excl
    by (simp add: structured_chain_calls)
qed

theorem extract_dispatch_witness:
  "fst (extractDocumentData sampleModel (js ''Rekins Nr. 123'') (js ''invoice'')) =
     Inr sampleInvoice \<and>
   fst (extractDocumentData sampleModel (js ''Rekins Nr. 123'') (js ''deliveryNote'')) =
     Inr sampleDeliveryNote \<and>
   fst (extractDocumentData sampleModel (js ''Rekins Nr. 123'') (js ''receipt'')) =
     Inr sampleReceipt \<and>
   conforms InvoiceSchema (Some sampleInvoice) \<and>
   \<not> conforms DeliveryNoteSchema (Some sampleInvoice) \<and>
   \<not> conforms ReceiptSchema (Some sampleInvoice) \<and>
   conforms DeliveryNoteSchema (Some sampleDeliveryNote) \<and>
   \<not> conforms InvoiceSchema (Some sampleDeliveryNote) \<and>
   \<not> conforms ReceiptSchema (Some sampleDeliveryNote) \<and>
   conforms ReceiptSchema (Some sampleReceipt) \<and>
   \<not> conforms InvoiceSchema (Some sampleReceipt) \<and>
   \<not> conforms DeliveryNoteSchema (Some sampleReceipt)"
  using extract_dispatch [of sampleModel "js ''Rekins Nr. 123''" sampleInvoice
      sampleDeliveryNote sampleReceipt]
  by (simp add: extract_sampleModel)

text \<open>
  C2. For every category value other than invoice, deliveryNote and receipt,
  \<open>extractDocumentData\<close> fails with the unsupported-category error and sends no request
  to the remote capability.
\<close>

theorem extract_unsupported_category:
  "docType \<notin> {js ''invoice'', js ''deliveryNote'', js ''receipt''} \<Longrightarrow>
   extractDocumentData model ocrText docType =
     (Inl (UnsupportedCategoryError (js ''Unsupported document type: '' @ docType)), [])"
  by (simp add: extractDocumentData_def)

theorem extract_unsupported_category_witness:
  "js ''contract'' \<notin> {js ''invoice'', js ''deliveryNote'', js ''receipt''} \<and>
   extractDocumentData sampleModel (js ''Ligums Nr. 7'') (js ''contract'') =
     (Inl (UnsupportedCategoryError (js ''Unsupported document type: contract'')), [])"
  using extract_unsupported_category [of "js ''contract''" sampleModel "js ''Ligums Nr. 7''"]
  by (simp add: js_def)

lemma detect_answering:
  "d \<in> {js ''invoice'', js ''deliveryNote'', js ''receipt''} \<Longrightarrow>
   detectDocumentType (answering (classificationAnswer d c r)) t =
     (Inr \<lparr>DocumentTypeResult.documentType = d, confidence = c, reasoning = r\<rparr>,
      [\<lparr>promptTemplate = documentTypePrompt, promptText = t, promptDocumentType = None,
        outputSchema = Some DocumentTypeSchema\<rparr>])"
  by (auto simp add: detectDocumentType_def documentTypeDetectionChain_def
      RunnableSequence_withStructuredOutput_def answering_def classificationAnswer_def
      DocumentTypeSchema_def field_def js_def)

lemma DocumentTypeSchema_fields:
  "conforms DocumentTypeSchema (Some v) \<Longrightarrow>
   \<exists>d c r. field ''documentType'' v = Some (JStr d) \<and> d \<in> {js ''invoice'', js ''deliveryNote'', js ''receipt''} \<and>
     field ''confidence'' v = Some (JNum c) \<and> field ''reasoning'' v = Some (JStr r)"
  by (cases v) (auto simp add: DocumentTypeSchema_def field_def js_def split: option.splits json.splits)

text \<open>
  C8, as the code has it. For every input text, \<open>detectDocumentType\<close> either fails with
  an external-service error or returns a classification whose category is one of the
  three values and whose confidence is the number in the remote capability's answer,
  unchanged. The schema asks for a number only, and nothing clamps or checks it: whatever
  number \<open>c\<close> the remote capability answers is the confidence returned.
\<close>

theorem detect_confidence_unchecked:
  "((\<exists>r. fst (detectDocumentType model ocrText) = Inl (ExternalServiceError r)) \<or>
    (\<exists>d msg v. fst (detectDocumentType model ocrText) = Inr d \<and>
       DocumentTypeResult.documentType d \<in> {js ''invoice'', js ''deliveryNote'', js ''receipt''} \<and>
       model \<lparr>promptTemplate = documentTypePrompt, promptText = ocrText,
              promptDocumentType = None, outputSchema = Some DocumentTypeSchema\<rparr> = Inr msg \<and>
       structured msg = Some v \<and>
       field ''confidence'' v = Some (JNum (confidence d)))) \<and>
   fst (detectDocumentType (answering (classificationAnswer (js ''invoice'') c r)) ocrText) =
     Inr \<lparr>DocumentTypeResult.documentType = js ''invoice'', confidence = c, reasoning = r\<rparr>"
proof -
  let ?req = "\<lparr>promptTemplate = documentTypePrompt, promptText = ocrText,
              promptDocumentType = None, outputSchema = Some DocumentTypeSchema\<rparr>"
  have A: "(\<exists>r. fst (detectDocumentType model ocrText) = Inl (ExternalServiceError r)) \<or>
    (\<exists>d msg v. fst (detectDocumentType model ocrText) = Inr d \<and>
       DocumentTypeResult.documentType d \<in> {js ''invoice'', js ''deliveryNote'', js ''receipt''} \<and>
       model ?req = Inr msg \<and> structured msg = Some v \<and>
       field ''confidence'' v = Some (JNum (confidence d)))"
  proof (cases "model ?req")
    case (Inl m)
    then show ?thesis
      by (simp add: detectDocumentType_def documentTypeDetectionChain_def
          RunnableSequence_withStructuredOutput_def)
  next
    case (Inr msg)
    show ?thesis
    proof (cases "structured msg")
      case None
      with Inr show ?thesis
        by (simp add: detectDocumentType_def documentTypeDetectionChain_def
            RunnableSequence_withStructuredOutput_def)
    next
      case (Some v)
      show ?thesis
      proof (cases "conforms DocumentTypeSchema (Some v)")
        case False
        with Inr Some show ?thesis
          by (simp add: detectDocumentType_def documentTypeDetectionChain_def
              RunnableSequence_withStructuredOutput_def)
      next
        case True
        from DocumentTypeSchema_fields [OF True] obtain d c r where
          f: "field ''documentType'' v = Some (JStr d)"
             "d \<in> {js ''invoice'', js ''deliveryNote'', js ''receipt''}"
             "field ''confidence'' v = Some (JNum c)" "field ''reasoning'' v = Some (JStr r)"
          by blast
        have "fst (detectDocumentType model ocrText) =
            Inr \<lparr>DocumentTypeResult.documentType = d, confidence = c, reasoning = r\<rparr>"
          using Inr Some True f
          by (simp add: detectDocumentType_def documentTypeDetectionChain_def
              RunnableSequence_withStructuredOutput_def)
        with Inr Some f show ?thesis by simp
      qed
    qed
  qed
  have B: "fst (detectDocumentType (answering (classificationAnswer (js ''invoice'') c r)) ocrText) =
     Inr \<lparr>DocumentTypeResult.documentType = js ''invoice'', confidence = c, reasoning = r\<rparr>"
    by (simp add: detect_answering)
  from A B show ?thesis by blast
qed

text \<open>
  C8, as stated, fails: a remote capability that answers with confidence 1.5 conforms to
  the schema, and \<open>detectDocumentType\<close> returns a confidence outside the interval from 0
  to 1.
\<close>

theorem detect_confidence_counterexample:
  "fst (detectDocumentType overconfident (js ''Rekins Nr. 123'')) =
     Inr overconfidentAnswer \<and>
   \<not> (0 \<le> confidence overconfidentAnswer \<and>
      confidence overconfidentAnswer \<le> 1)"
  by (simp add: overconfident_def overconfidentAnswer_def detect_answering)

section \<open>Properties of the coordinator\<close>

lemma dropWhile_all: "(\<forall>c\<in>set (dropWhile P s). P c) \<longleftrightarrow> (\<forall>c\<in>set s. P c)"
proof
  assume all: "\<forall>c\<in>set (dropWhile P s). P c"
  have "dropWhile P s = []"
  proof (rule ccontr)
    assume ne: "dropWhile P s \<noteq> []"
    then have "\<not> P (hd (dropWhile P s))" by (rule hd_dropWhile)
    moreover from ne have "hd (dropWhile P s) \<in> set (dropWhile P s)" by simp
    ultimately show False using all by blast
  qed
  then show "\<forall>c\<in>set s. P c" by (simp add: dropWhile_eq_Nil_conv)
next
  assume "\<forall>c\<in>set s. P c"
  then show "\<forall>c\<in>set (dropWhile P s). P c" by (auto dest: set_dropWhileD)
qed

lemma trim_empty: "trim s = [] \<longleftrightarrow> (\<forall>c\<in>set s. isWhiteSpace c)"
  by (simp add: trim_def dropWhile_eq_Nil_conv dropWhile_all)

lemma firstVisit_simp:
  "firstVisit = \<lparr>inputText = [], isDetectingType = False, isSummarizing = False,
      isExtractingData = False, results = None, error = None, history = [],
      activeTab = js ''input'', localStorage = None, remoteCalls = [], awaiting = None\<rparr>"
  by (simp add: firstVisit_def mount_def saveHistoryEffect_def)

lemma detect_sampleModel:
  "detectDocumentType sampleModel t =
     (Inr sampleClassification,
      [\<lparr>promptTemplate = documentTypePrompt, promptText = t, promptDocumentType = None,
        outputSchema = Some DocumentTypeSchema\<rparr>])"
  by (simp add: detectDocumentType_def documentTypeDetectionChain_def
      RunnableSequence_withStructuredOutput_def sampleModel_def classificationAnswer_def
      DocumentTypeSchema_def field_def sampleClassification_def js_def)

lemma sampleClassification_documentType:
  "DocumentTypeResult.documentType sampleClassification = js ''invoice''"
  by (simp add: sampleClassification_def)

lemma summarize_unreachable:
  "summarizeDocument unreachable t d =
     (Inl (ExternalServiceError (CallFailed (js ''fetch failed''))),
      [\<lparr>promptTemplate = documentSummaryPrompt, promptText = t, promptDocumentType = Some d,
        outputSchema = None\<rparr>])"
  by (simp add: summarizeDocument_def documentSummaryChain_def RunnableSequence_def unreachable_def)

lemma trim_sample: "trim (js ''Rekins Nr. 123'') \<noteq> []"
  by (simp add: trim_empty js_def isWhiteSpace_def)

lemma classified_simp:
  "classified =
     \<lparr>inputText = js ''Rekins Nr. 123'', isDetectingType = False, isSummarizing = False,
      isExtractingData = False,
      results = Some \<lparr>documentType = Some sampleClassification,
                       summary = None, extractedData = None\<rparr>,
      error = None,
      history = [sampleEntry 1000],
      activeTab = js ''results'',
      localStorage = Some [sampleEntry 1000],
      remoteCalls = [\<lparr>promptTemplate = documentTypePrompt,
                       promptText = js ''Rekins Nr. 123'', promptDocumentType = None,
                       outputSchema = Some DocumentTypeSchema\<rparr>],
      awaiting = None\<rparr>"
  by (simp add: classified_def firstVisit_simp stageInFlight_def trim_sample
        handleDetectDocumentType_def settle_def detect_sampleModel setHistory_def
        saveHistoryEffect_def newHistory_def historyEntry_def spread_def sampleEntry_def)
     (simp add: js_def)

text \<open>
  C3. In every session state without a classification, the summarize handler and the
  extract handler only set the error message "Please detect document type first": the
  rest of the state is as before, no request is sent to the remote capability, and no
  handler is left suspended at a remote call.
\<close>

theorem no_classification_rejected:
  "noClassification (results st) \<Longrightarrow>
   handleSummarizeDocument st = st\<lparr>error := Some (js ''Please detect document type first'')\<rparr> \<and>
   handleExtractDocumentData st = st\<lparr>error := Some (js ''Please detect document type first'')\<rparr> \<and>
   remoteCalls (handleSummarizeDocument st) = remoteCalls st \<and>
   awaiting (handleSummarizeDocument st) = awaiting st \<and>
   remoteCalls (handleExtractDocumentData st) = remoteCalls st \<and>
   awaiting (handleExtractDocumentData st) = awaiting st"
  by (auto simp: noClassification_def handleSummarizeDocument_def handleExtractDocumentData_def
           split: option.splits)

theorem no_classification_rejected_witness:
  "noClassification (results firstVisit) \<and>
   error (handleSummarizeDocument firstVisit) = Some (js ''Please detect document type first'') \<and>
   error (handleExtractDocumentData firstVisit) = Some (js ''Please detect document type first'') \<and>
   remoteCalls (handleSummarizeDocument firstVisit) = [] \<and>
   awaiting (handleSummarizeDocument firstVisit) = None \<and>
   remoteCalls (handleExtractDocumentData firstVisit) = [] \<and>
   awaiting (handleExtractDocumentData firstVisit) = None"
  using no_classification_rejected [of firstVisit]
  by (simp add: firstVisit_simp noClassification_def)

text \<open>
  C5. For every input text that is empty or consists of white space only, the detect
  handler and the process-all handler only set the validation message "Please enter some
  text to analyze": no request is sent to the remote capability and no handler is left
  suspended at a remote call.
\<close>

theorem blank_input_rejected:
  "\<forall>c\<in>set (inputText st). isWhiteSpace c \<Longrightarrow>
   handleDetectDocumentType st = st\<lparr>error := Some (js ''Please enter some text to analyze'')\<rparr> \<and>
   handleProcessAll st = st\<lparr>error := Some (js ''Please enter some text to analyze'')\<rparr> \<and>
   remoteCalls (handleDetectDocumentType st) = remoteCalls st \<and>
   awaiting (handleDetectDocumentType st) = awaiting st \<and>
   remoteCalls (handleProcessAll st) = remoteCalls st \<and>
   awaiting (handleProcessAll st) = awaiting st"
  by (simp add: handleDetectDocumentType_def handleProcessAll_def trim_empty)

theorem blank_input_rejected_witness:
  "list_all isWhiteSpace (inputText (step (ChangeText blankText) firstVisit)) \<and>
   error (handleDetectDocumentType (step (ChangeText blankText) firstVisit)) =
     Some (js ''Please enter some text to analyze'') \<and>
   error (handleProcessAll (step (ChangeText blankText) firstVisit)) =
     Some (js ''Please enter some text to analyze'') \<and>
   remoteCalls (handleDetectDocumentType (step (ChangeText blankText) firstVisit)) = [] \<and>
   awaiting (handleDetectDocumentType (step (ChangeText blankText) firstVisit)) = None \<and>
   remoteCalls (handleProcessAll (step (ChangeText blankText) firstVisit)) = [] \<and>
   awaiting (handleProcessAll (step (ChangeText blankText) firstVisit)) = None"
  using blank_input_rejected [of "step (ChangeText blankText) firstVisit"]
  by (simp add: firstVisit_simp blankText_def isWhiteSpace_def)

text \<open>
  C10. The Clear History control empties the list in memory and never writes to the
  persistent store, since the write happens only for a non-empty list: the store holds
  what it held before, and a reload of the page shows the stored entries again.
\<close>

theorem clear_history_keeps_store:
  "history (step ClickClearHistory st) = [] \<and>
   localStorage (step ClickClearHistory st) = localStorage st \<and>
   localStorage (step Reload (step ClickClearHistory st)) = localStorage st \<and>
   history (step Reload (step ClickClearHistory st)) =
     (case localStorage st of None \<Rightarrow> [] | Some stored \<Rightarrow> stored)"
  by (auto simp: setHistory_def saveHistoryEffect_def mount_def Let_def split: option.splits)

theorem clear_history_keeps_store_witness:
  "history classified = [sampleEntry 1000] \<and>
   history (step ClickClearHistory classified) = [] \<and>
   localStorage (step ClickClearHistory classified) = Some [sampleEntry 1000] \<and>
   history (step Reload (step ClickClearHistory classified)) = [sampleEntry 1000]"
  using clear_history_keeps_store [of classified]
  by (simp add: classified_simp setHistory_def saveHistoryEffect_def mount_def)

lemma summarizing_simp:
  "summarizing =
     \<lparr>inputText = js ''Rekins Nr. 123'', isDetectingType = False, isSummarizing = True,
      isExtractingData = False,
      results = Some \<lparr>documentType = Some sampleClassification,
                       summary = None, extractedData = None\<rparr>,
      error = None, history = [], activeTab = js ''input'', localStorage = None,
      remoteCalls = [\<lparr>promptTemplate = documentTypePrompt,
                       promptText = js ''Rekins Nr. 123'', promptDocumentType = None,
                       outputSchema = Some DocumentTypeSchema\<rparr>],
      awaiting = Some (AllSummarizeAwait (js ''Rekins Nr. 123'') [] sampleClassification)\<rparr>"
  by (simp add: summarizing_def firstVisit_simp stageInFlight_def trim_sample
      handleProcessAll_def settle_def detect_sampleModel)

lemma summarize_sampleModel:
  "summarizeDocument sampleModel t d =
     (Inr (js ''Invoice 123 from SIA Alfa, 121.00 EUR.''),
      [\<lparr>promptTemplate = documentSummaryPrompt, promptText = t, promptDocumentType = Some d,
        outputSchema = None\<rparr>])"
  by (simp add: summarizeDocument_def documentSummaryChain_def RunnableSequence_def sampleModel_def)

lemma extract_unreachable:
  "extractDocumentData unreachable t (js ''invoice'') =
     (Inl (ExternalServiceError (CallFailed (js ''fetch failed''))),
      [\<lparr>promptTemplate = invoiceExtractionPrompt, promptText = t, promptDocumentType = None,
        outputSchema = Some InvoiceSchema\<rparr>])"
  by (simp add: extractDocumentData_def invoiceExtractionChain_def
      RunnableSequence_withStructuredOutput_def unreachable_def)

text \<open>
  C6, as stated, fails for a stage in flight: during a process-all run whose summarization
  is pending, the clear handler leaves the flag of the running stage set, so the
  coordinator is still Summarizing and not Idle.
\<close>

theorem clear_in_flight_counterexample:
  "stageInFlight summarizing \<and> isSummarizing (handleClear summarizing) \<and>
   specState (handleClear summarizing) = Summarizing \<and>
   specState (handleClear summarizing) \<noteq> Idle"
  by (simp add: summarizing_simp stageInFlight_def handleClear_def specState_def)

text \<open>
  C6, as the code has it. For every prior state, the clear handler resets classification,
  summary and record to absent (and the error message and the input text with them); it
  returns the coordinator to Idle whenever no stage is in flight. While a stage is in
  flight the Clear control is disabled, and a click on it leaves the state as it is.
\<close>

theorem clear_resets:
  "results (handleClear st) = None \<and> error (handleClear st) = None \<and>
   inputText (handleClear st) = [] \<and>
   (\<not> stageInFlight st \<longrightarrow> specState (handleClear st) = Idle) \<and>
   (stageInFlight st \<longrightarrow> step ClickClear st = st)"
  by (simp add: handleClear_def specState_def stageInFlight_def)

theorem clear_resets_witness:
  "\<not> stageInFlight classified \<and> results classified \<noteq> None \<and>
   results (handleClear classified) = None \<and> specState (handleClear classified) = Idle \<and>
   stageInFlight summarizing \<and> step ClickClear summarizing = summarizing"
  using clear_resets [of classified] clear_resets [of summarizing]
  by (simp add: classified_simp summarizing_simp stageInFlight_def)

text \<open>
  C9. When the call of a single-stage summarize or extract fails, the results held by the
  session (classification, summary, record), the input text, the history list, the
  stored list and the active tab are what they were before the request; the stage's flag
  is cleared and the stage's error message is set.
\<close>

theorem stage_failure_keeps_session:
  "results st = Some r \<Longrightarrow> AnalysisResults.documentType r = Some dt \<Longrightarrow>
   (fst (summarizeDocument model (inputText st) (DocumentTypeResult.documentType dt)) = Inl e1 \<longrightarrow>
      results (settle model now (handleSummarizeDocument st)) = results st \<and>
      inputText (settle model now (handleSummarizeDocument st)) = inputText st \<and>
      history (settle model now (handleSummarizeDocument st)) = history st \<and>
      localStorage (settle model now (handleSummarizeDocument st)) = localStorage st \<and>
      activeTab (settle model now (handleSummarizeDocument st)) = activeTab st \<and>
      isSummarizing (settle model now (handleSummarizeDocument st)) = False \<and>
      error (settle model now (handleSummarizeDocument st)) =
        Some (js ''An error occurred during document summarization. Please try again.'')) \<and>
   (fst (extractDocumentData model (inputText st) (DocumentTypeResult.documentType dt)) = Inl e2 \<longrightarrow>
      results (settle model now (handleExtractDocumentData st)) = results st \<and>
      inputText (settle model now (handleExtractDocumentData st)) = inputText st \<and>
      history (settle model now (handleExtractDocumentData st)) = history st \<and>
      localStorage (settle model now (handleExtractDocumentData st)) = localStorage st \<and>
      activeTab (settle model now (handleExtractDocumentData st)) = activeTab st \<and>
      isExtractingData (settle model now (handleExtractDocumentData st)) = False \<and>
      error (settle model now (handleExtractDocumentData st)) =
        Some (js ''An error occurred during data extraction. Please try again.''))"
  by (auto simp: handleSummarizeDocument_def handleExtractDocumentData_def settle_def
           split: prod.splits sum.splits)

theorem stage_failure_keeps_session_witness:
  "results classified = Some \<lparr>documentType = Some sampleClassification,
                       summary = None, extractedData = None\<rparr> \<and>
   fst (summarizeDocument unreachable (inputText classified) (js ''invoice'')) =
     Inl (ExternalServiceError (CallFailed (js ''fetch failed''))) \<and>
   fst (extractDocumentData unreachable (inputText classified) (js ''invoice'')) =
     Inl (ExternalServiceError (CallFailed (js ''fetch failed''))) \<and>
   results (settle unreachable 2000 (handleSummarizeDocument classified)) = results classified \<and>
   inputText (settle unreachable 2000 (handleSummarizeDocument classified)) = js ''Rekins Nr. 123'' \<and>
   error (settle unreachable 2000 (handleSummarizeDocument classified)) =
     Some (js ''An error occurred during document summarization. Please try again.'') \<and>
   results (settle unreachable 2000 (handleExtractDocumentData classified)) = results classified \<and>
   inputText (settle unreachable 2000 (handleExtractDocumentData classified)) = js ''Rekins Nr. 123'' \<and>
   error (settle unreachable 2000 (handleExtractDocumentData classified)) =
     Some (js ''An error occurred during data extraction. Please try again.'')"
  using stage_failure_keeps_session [of classified
      "\<lparr>documentType = Some sampleClassification, summary = None, extractedData = None\<rparr>"
      sampleClassification unreachable "ExternalServiceError (CallFailed (js ''fetch failed''))"
      2000 "ExternalServiceError (CallFailed (js ''fetch failed''))"]
  by (simp add: classified_simp summarize_unreachable extract_unreachable
      sampleClassification_documentType)

text \<open>
  C7, as the code has it. After a successful single-stage detection, and after a
  process-all run in which detection, summarization and extraction have all succeeded, a
  new entry is put in front of the history list captured by the handler, the list is cut
  to five entries and written to the history store. The text of the entry is the first
  100 code units of the input text, followed by "..." if and only if the input is longer
  than 100 code units.
\<close>

theorem history_entry_written:
  "trim (inputText st) \<noteq> [] \<Longrightarrow>
   text (historyEntry (inputText st) now) =
     take 100 (inputText st) @ (if length (inputText st) > 100 then js ''...'' else []) \<and>
   (fst (detectDocumentType model (inputText st)) = Inr d \<longrightarrow>
      history (settle model now (handleDetectDocumentType st)) =
        take 5 (historyEntry (inputText st) now # history st) \<and>
      localStorage (settle model now (handleDetectDocumentType st)) =
        Some (take 5 (historyEntry (inputText st) now # history st))) \<and>
   (fst (detectDocumentType model1 (inputText st)) = Inr d1 \<and>
    fst (summarizeDocument model2 (inputText st) (DocumentTypeResult.documentType d1)) = Inr s \<and>
    fst (extractDocumentData model3 (inputText st) (DocumentTypeResult.documentType d1)) = Inr x \<longrightarrow>
      history (settle model3 now (settle model2 now2 (settle model1 now1 (handleProcessAll st)))) =
        take 5 (historyEntry (inputText st) now # history st) \<and>
      localStorage (settle model3 now (settle model2 now2 (settle model1 now1 (handleProcessAll st)))) =
        Some (take 5 (historyEntry (inputText st) now # history st)))"
  by (auto simp: handleDetectDocumentType_def handleProcessAll_def settle_def setHistory_def
        saveHistoryEffect_def newHistory_def historyEntry_def
      split: prod.splits sum.splits)

text \<open>
  C7, as stated, fails in process-all mode: when detection succeeds and summarization then
  fails, no entry is added to the history list and nothing is written to the store.
\<close>

theorem process_all_history_counterexample:
  "fst (detectDocumentType sampleModel (js ''Rekins Nr. 123'')) = Inr sampleClassification \<and>
   results (run [ChangeText (js ''Rekins Nr. 123''), ClickProcessAll,
                 Settle sampleModel 1000, Settle unreachable 2000] firstVisit) =
     Some \<lparr>documentType = Some sampleClassification, summary = None,
           extractedData = None\<rparr> \<and>
   history (run [ChangeText (js ''Rekins Nr. 123''), ClickProcessAll,
                 Settle sampleModel 1000, Settle unreachable 2000] firstVisit) = [] \<and>
   localStorage (run [ChangeText (js ''Rekins Nr. 123''), ClickProcessAll,
                 Settle sampleModel 1000, Settle unreachable 2000] firstVisit) = None"
  by (simp add: firstVisit_simp stageInFlight_def trim_sample handleProcessAll_def
      settle_def detect_sampleModel summarize_unreachable processAllFailed_def)

lemma trim_longText: "trim longText \<noteq> []"
  by (simp add: trim_empty longText_def isWhiteSpace_def)

theorem history_entry_written_witness:
  "trim (inputText (step (ChangeText longText) firstVisit)) \<noteq> [] \<and>
   history (settle sampleModel 1000 (handleDetectDocumentType (step (ChangeText longText) firstVisit))) =
     [\<lparr>text = replicate 100 0x52 @ js ''...'', timestamp = 1000\<rparr>] \<and>
   localStorage (settle sampleModel 1000 (handleDetectDocumentType (step (ChangeText longText) firstVisit))) =
     Some [\<lparr>text = replicate 100 0x52 @ js ''...'', timestamp = 1000\<rparr>] \<and>
   history (settle sampleModel 1000 (settle sampleModel 900 (settle sampleModel 800
      (handleProcessAll (step (ChangeText longText) firstVisit))))) =
     [\<lparr>text = replicate 100 0x52 @ js ''...'', timestamp = 1000\<rparr>] \<and>
   localStorage (settle sampleModel 1000 (settle sampleModel 900 (settle sampleModel 800
      (handleProcessAll (step (ChangeText longText) firstVisit))))) =
     Some [\<lparr>text = replicate 100 0x52 @ js ''...'', timestamp = 1000\<rparr>]"
  using history_entry_written [of "step (ChangeText longText) firstVisit" 1000
      sampleModel sampleClassification sampleModel sampleClassification
      sampleModel "js ''Invoice 123 from SIA Alfa, 121.00 EUR.''" sampleModel sampleInvoice
      900 800]
    trim_longText
  by (simp add: firstVisit_simp detect_sampleModel summarize_sampleModel extract_sampleModel
      sampleClassification_documentType historyEntry_def longText_def)

section \<open>The history list is bounded and most recent first\<close>

lemma recentFirst_Nil: "recentFirst T []"
  by (simp add: recentFirst_def)

lemma recentFirst_mono: "recentFirst T h \<Longrightarrow> T \<le> T' \<Longrightarrow> recentFirst T' h"
  by (auto simp: recentFirst_def)

lemma recentFirst_new:
  assumes "recentFirst T h" "T \<le> now"
  shows "recentFirst now (newHistory t now h)"
proof -
  let ?e = "historyEntry t now"
  have ts: "timestamp ?e = now" by (simp add: historyEntry_def)
  have s: "sorted_wrt (\<ge>) (map timestamp (?e # h))"
    using assms ts by (auto simp: recentFirst_def)
  have "sorted_wrt (\<ge>) (take 5 (map timestamp (?e # h)))"
    using s by (rule sorted_wrt_take)
  then have "sorted_wrt (\<ge>) (map timestamp (take 5 (?e # h)))"
    by (simp only: take_map)
  moreover have "\<forall>x\<in>set (take 5 (?e # h)). timestamp x \<le> now"
    using assms ts by (auto simp: recentFirst_def dest!: in_set_takeD)
  ultimately show ?thesis
    by (simp add: recentFirst_def newHistory_def)
qed

lemma length_new: "length (newHistory t now h) \<le> 5"
  by (simp add: newHistory_def)

lemma satisfy_resume:
  assumes st: "historiesSatisfy P st" and k: "P (capturedHistory k)" and aw: "awaiting st = None"
    and weaken: "\<And>h. P h \<Longrightarrow> Q h"
    and new: "\<And>t h. P h \<Longrightarrow> Q (newHistory t now h)"
  shows "historiesSatisfy Q (resume k model now st)"
proof -
  have st': "historiesSatisfy Q st"
    using st weaken by (auto simp: historiesSatisfy_def split: option.splits)
  have cap: "Q (capturedHistory k)"
    using k by (rule weaken)
  have new': "Q (newHistory t now (capturedHistory k))" for t
    using k by (rule new)
  show ?thesis
  proof (cases k)
    case (DetectAwait t r h)
    with st' cap new' [of t] aw show ?thesis
      by (auto simp: historiesSatisfy_def setHistory_def saveHistoryEffect_def
          split: prod.splits sum.splits option.splits)
  next
    case (SummarizeAwait t c r)
    with st' aw show ?thesis
      by (auto simp: historiesSatisfy_def split: prod.splits sum.splits option.splits)
  next
    case (ExtractAwait t c r)
    with st' aw show ?thesis
      by (auto simp: historiesSatisfy_def split: prod.splits sum.splits option.splits)
  next
    case (AllDetectAwait t h)
    with st' cap aw show ?thesis
      by (auto simp: historiesSatisfy_def processAllFailed_def
          split: prod.splits sum.splits option.splits)
  next
    case (AllSummarizeAwait t h d)
    with st' cap aw show ?thesis
      by (auto simp: historiesSatisfy_def processAllFailed_def
          split: prod.splits sum.splits option.splits)
  next
    case (AllExtractAwait t h d)
    with st' cap new' [of t] aw show ?thesis
      by (auto simp: historiesSatisfy_def processAllFailed_def setHistory_def
          saveHistoryEffect_def split: prod.splits sum.splits option.splits)
  qed
qed

lemma satisfy_settle:
  assumes st: "historiesSatisfy P st"
    and weaken: "\<And>h. P h \<Longrightarrow> Q h"
    and new: "\<And>t h. P h \<Longrightarrow> Q (newHistory t now h)"
  shows "historiesSatisfy Q (settle model now st)"
proof (cases "awaiting st")
  case None
  with st weaken show ?thesis
    by (auto simp: settle_def historiesSatisfy_def split: option.splits)
next
  case (Some k)
  have "historiesSatisfy Q (resume k model now (st\<lparr>awaiting := None\<rparr>))"
  proof (rule satisfy_resume [where P = P])
    show "historiesSatisfy P (st\<lparr>awaiting := None\<rparr>)"
      using st by (simp add: historiesSatisfy_def)
    show "P (capturedHistory k)"
      using st Some by (simp add: historiesSatisfy_def)
    show "awaiting (st\<lparr>awaiting := None\<rparr>) = None" by simp
  qed (fact weaken, fact new)
  with Some show ?thesis by (simp add: settle_def)
qed

lemma satisfy_mount:
  "P [] \<Longrightarrow> (case stored of None \<Rightarrow> True | Some h \<Rightarrow> P h) \<Longrightarrow>
   historiesSatisfy P (mount stored sent)"
  by (auto simp: historiesSatisfy_def mount_def setHistory_def saveHistoryEffect_def
      Let_def split: option.splits)

lemma satisfy_step_other:
  assumes st: "historiesSatisfy P st" and nil: "P []" and e: "clockReadings [e] = []"
  shows "historiesSatisfy P (step e st)"
proof (cases e)
  case Reload
  from st have "case localStorage st of None \<Rightarrow> True | Some h \<Rightarrow> P h"
    by (simp add: historiesSatisfy_def)
  with nil have "historiesSatisfy P (mount (localStorage st) (remoteCalls st))"
    by (rule satisfy_mount)
  with Reload show ?thesis by simp
next
  case ClickClearHistory
  with st nil show ?thesis
    by (auto simp: historiesSatisfy_def setHistory_def saveHistoryEffect_def
        split: option.splits)
next
  case (Settle model now)
  with e show ?thesis by simp
qed (use st nil in \<open>auto simp: historiesSatisfy_def handleDetectDocumentType_def
       handleSummarizeDocument_def handleExtractDocumentData_def handleProcessAll_def
       handleClear_def loadFromHistory_def split: option.splits\<close>)

lemma length_step:
  "historiesSatisfy (\<lambda>h. length h \<le> 5) st \<Longrightarrow> historiesSatisfy (\<lambda>h. length h \<le> 5) (step e st)"
proof (cases "clockReadings [e] = []")
  case True
  assume "historiesSatisfy (\<lambda>h. length h \<le> 5) st"
  then show ?thesis using True by (intro satisfy_step_other) simp_all
next
  case False
  then obtain model now where "e = Settle model now"
    by (cases e) simp_all
  moreover assume "historiesSatisfy (\<lambda>h. length h \<le> 5) st"
  ultimately show ?thesis
    by (simp add: satisfy_settle [where P = "\<lambda>h. length h \<le> 5"] length_new)
qed

lemma length_run:
  "historiesSatisfy (\<lambda>h. length h \<le> 5) st \<Longrightarrow>
   historiesSatisfy (\<lambda>h. length h \<le> 5) (run es st)"
  by (induction es arbitrary: st) (simp_all add: length_step)

lemma recentFirst_run:
  "historiesSatisfy (recentFirst T) st \<Longrightarrow> sorted (clockReadings es) \<Longrightarrow>
   \<forall>t\<in>set (clockReadings es). T \<le> t \<Longrightarrow> \<exists>T'. historiesSatisfy (recentFirst T') (run es st)"
proof (induction es arbitrary: T st)
  case Nil
  then show ?case by auto
next
  case (Cons e es)
  show ?case
  proof (cases "clockReadings [e] = []")
    case True
    then have r: "clockReadings (e # es) = clockReadings es"
      by (cases e) simp_all
    have "historiesSatisfy (recentFirst T) (step e st)"
      using Cons.prems(1) recentFirst_Nil True by (rule satisfy_step_other)
    from Cons.IH [OF this] Cons.prems r show ?thesis by simp
  next
    case False
    then obtain model now where Settle: "e = Settle model now"
      by (cases e) simp_all
    from Cons.prems Settle have le: "T \<le> now" by simp
    have "historiesSatisfy (recentFirst now) (settle model now st)"
      using Cons.prems(1)
    proof (rule satisfy_settle)
      show "recentFirst now h" if "recentFirst T h" for h
        using that le by (rule recentFirst_mono)
      show "recentFirst now (newHistory t now h)" if "recentFirst T h" for t h
        using that le by (rule recentFirst_new)
    qed
    then have inv: "historiesSatisfy (recentFirst now) (step e st)"
      using Settle by simp
    have "sorted (clockReadings es)" "\<forall>t\<in>set (clockReadings es). now \<le> t"
      using Cons.prems(2) Settle by simp_all
    from Cons.IH [OF inv this] show ?thesis by simp
  qed
qed

lemma firstVisit_satisfies: "P [] \<Longrightarrow> historiesSatisfy P firstVisit"
  by (simp add: firstVisit_def satisfy_mount)

lemma evict_oldest:
  "length h = 5 \<Longrightarrow> newHistory t now h = historyEntry t now # butlast h"
  by (simp add: newHistory_def butlast_conv_take)

text \<open>
  C4. From a first visit and after any sequence of events, the history list has at most
  five entries; its entries are ordered most recent first (their timestamps do not
  increase from the head on, the clock not running backwards); and adding an entry to a
  list of five puts the new entry in front and drops the last, that is, the oldest one.
\<close>

theorem history_bounded_recent_first:
  "length (history (run es firstVisit)) \<le> 5 \<and>
   (sorted (clockReadings es) \<longrightarrow>
      sorted_wrt (\<ge>) (map timestamp (history (run es firstVisit)))) \<and>
   (length h = 5 \<longrightarrow> newHistory t now h = historyEntry t now # butlast h)"
proof -
  have "historiesSatisfy (\<lambda>h. length h \<le> 5) (run es firstVisit)"
    by (rule length_run) (simp add: firstVisit_satisfies)
  then have len: "length (history (run es firstVisit)) \<le> 5"
    by (simp add: historiesSatisfy_def)
  have ord: "sorted_wrt (\<ge>) (map timestamp (history (run es firstVisit)))"
    if s: "sorted (clockReadings es)"
  proof -
    have "historiesSatisfy (recentFirst 0) firstVisit"
      by (simp add: firstVisit_satisfies recentFirst_Nil)
    from recentFirst_run [OF this s] obtain T'
      where "historiesSatisfy (recentFirst T') (run es firstVisit)" by auto
    then show ?thesis by (simp add: historiesSatisfy_def recentFirst_def)
  qed
  from len ord evict_oldest show ?thesis by blast
qed

lemma sixDetections_history:
  "history (run sixDetections firstVisit) =
     [sampleEntry 6, sampleEntry 5, sampleEntry 4, sampleEntry 3, sampleEntry 2]"
  by (simp add: sixDetections_def firstVisit_simp stageInFlight_def trim_sample
      handleDetectDocumentType_def settle_def detect_sampleModel setHistory_def
      saveHistoryEffect_def newHistory_def historyEntry_def sampleEntry_def)
     (simp add: js_def)

theorem history_bounded_recent_first_witness:
  "sorted (clockReadings sixDetections) \<and>
   history (run sixDetections firstVisit) =
     [sampleEntry 6, sampleEntry 5, sampleEntry 4, sampleEntry 3, sampleEntry 2] \<and>
   length (history (run sixDetections firstVisit)) = 5 \<and>
   newHistory (js ''Rekins Nr. 123'') 7 (history (run sixDetections firstVisit)) =
     [sampleEntry 7, sampleEntry 6, sampleEntry 5, sampleEntry 4, sampleEntry 3]"
  using history_bounded_recent_first [of sixDetections "history (run sixDetections firstVisit)"
      "js ''Rekins Nr. 123''" 7]
  by (simp add: sixDetections_history historyEntry_def sampleEntry_def)
     (simp add: sixDetections_def js_def)

end
